theory Spec2Isabelle
  imports Complex_Main
begin

section \<open>Numbers and errors\<close>

text \<open>
  JavaScript numbers are IEEE doubles; here they are exact reals. The two agree wherever
  every value that occurs is exactly representable: byte counts, the thresholds they are
  compared with (dividing by \<open>1024 * 1024 * 1024\<close> is exact), the fixed percentages,
  and the time stamps of the transcription runs evaluated below (one run has other
  values; its text says so). The percentage of the
  interval timer, \<open>30 + currentTime / duration * 60\<close>, is rounded by the code, but
  rounding is monotone, so what is said about the order of percentages carries over.
  Transcription runs are only evaluated at concrete inputs; no general statement is made
  about time stamps the code computes with rounding.
  A thrown \<open>Error\<close> is a value carrying its message.
\<close>

datatype js_error = Error string

fun message :: "js_error \<Rightarrow> string" where
  "message (Error m) = m"

section \<open>compressionService.js: recommended settings\<close>

text \<open>The quality strings \<open>'low'\<close>, \<open>'medium'\<close>, \<open>'high'\<close> of the settings object.\<close>

datatype quality = Low | Medium | High

record compression_settings =
  quality :: quality
  maxWidth :: nat
  maxHeight :: nat
  frameRate :: nat
  audioBitrate :: string

definition getRecommendedCompressionSettings :: "real \<Rightarrow> compression_settings" where
  "getRecommendedCompressionSettings fileSizeBytes =
     (let fileSizeGB = fileSizeBytes / (1024 * 1024 * 1024) in
      if fileSizeGB > 4 then
        \<lparr>quality = Low, maxWidth = 854, maxHeight = 480, frameRate = 24,
         audioBitrate = ''96k''\<rparr>
      else if fileSizeGB > 2 then
        \<lparr>quality = Low, maxWidth = 1280, maxHeight = 720, frameRate = 24,
         audioBitrate = ''128k''\<rparr>
      else if fileSizeGB > 1 then
        \<lparr>quality = Medium, maxWidth = 1280, maxHeight = 720, frameRate = 30,
         audioBitrate = ''128k''\<rparr>
      else
        \<lparr>quality = High, maxWidth = 1920, maxHeight = 1080, frameRate = 30,
         audioBitrate = ''192k''\<rparr>)"

text \<open>The order of the tiers, used to say that a larger file never gets a better tier.\<close>

fun qualityRank :: "quality \<Rightarrow> nat" where
  "qualityRank Low = 0"
| "qualityRank Medium = 1"
| "qualityRank High = 2"

definition GB :: real where
  "GB = 1024 * 1024 * 1024"

definition MB :: real where
  "MB = 1024 * 1024"

section \<open>compressionService.js: audio extraction\<close>

text \<open>
  A \<open>File\<close> or \<open>Blob\<close> is modelled by its byte length and MIME type; its content does
  not influence any function modelled here.
\<close>

record blob =
  size :: nat
  mimeType :: string

text \<open>
  An awaited promise either stays pending, rejects with an error or resolves with a value.
\<close>

datatype 'a promise = Pending | Rejected js_error | Resolved 'a

text \<open>
  What a run does that its caller can observe: which extractor was started, and each
  percentage handed to \<open>progressCallback\<close> (the stage label is left out). A callback
  that is \<open>null\<close> receives nothing: \<open>report cb p\<close> models
  \<open>if (progressCallback) progressCallback(p, ...)\<close>. The model assumes the callback
  itself does not throw.
\<close>

datatype extractor = NativeExtractor | EngineExtractor

datatype event = Started extractor | Progress real

fun report :: "bool \<Rightarrow> real \<Rightarrow> event list" where
  "report True p = [Progress p]"
| "report False p = []"

fun percents :: "event list \<Rightarrow> real list" where
  "percents [] = []"
| "percents (Progress p # es) = p # percents es"
| "percents (Started x # es) = percents es"

fun started :: "event list \<Rightarrow> extractor list" where
  "started [] = []"
| "started (Progress p # es) = started es"
| "started (Started x # es) = x # started es"

text \<open>
  The browser's part in \<open>nativeBrowserAudioExtraction\<close>, in the order of the source:
  the set-up in the outer \<open>try\<close> throws; the video cannot be loaded, so
  that the element fires \<open>error\<close> (a container or codec the browser does not support, a
  damaged file) and \<open>loadedmetadata\<close> never fires: \<open>video.onerror\<close> is only installed
  inside the \<open>onloadedmetadata\<close> handler, so nothing rejects and the promise stays
  pending;
  building the audio graph throws before the report of 30; constructing or starting the
  \<open>MediaRecorder\<close> throws after it; \<open>video.play()\<close> rejects; or playback runs, the
  100 ms interval timer fires at the given values of \<open>video.currentTime\<close>, and playback
  finishes with an \<open>error\<close> event (its message, if any) or with \<open>ended\<close>, after which
  the recorder delivers data chunks of the given sizes and stops.
\<close>

datatype playback_end = VideoErrorEvent "string option" | VideoEnded "nat list"

datatype native_env =
    SetupThrows string
  | MetadataNeverLoads
  | AudioGraphThrows string
  | RecorderThrows string
  | PlayRejected js_error
  | Plays "real list" playback_end

definition mimeTypes :: "string list" where
  "mimeTypes = [''audio/webm;codecs=opus'', ''audio/webm'', ''audio/ogg;codecs=opus'',
                ''audio/ogg'', ''audio/mp4'']"

definition selectMimeType :: "(string \<Rightarrow> bool) \<Rightarrow> string" where
  "selectMimeType isTypeSupported =
     (case find isTypeSupported mimeTypes of Some t \<Rightarrow> t | None \<Rightarrow> ''audio/webm'')"

text \<open>\<open>e.message || 'Unknown error'\<close>: a missing or empty message is replaced.\<close>

fun messageOr :: "string option \<Rightarrow> string \<Rightarrow> string" where
  "messageOr None d = d"
| "messageOr (Some m) d = (if m = [] then d else m)"

text \<open>
  One firing of the interval timer:
  \<open>if (video.duration && video.currentTime) progressCallback(30 + currentTime / duration * 60)\<close>.
\<close>

definition tick :: "bool \<Rightarrow> real \<Rightarrow> real \<Rightarrow> event list" where
  "tick cb duration currentTime =
     (if duration \<noteq> 0 \<and> currentTime \<noteq> 0
      then report cb (30 + (currentTime / duration) * 60) else [])"

fun nativeBrowserAudioExtraction ::
  "blob \<Rightarrow> bool \<Rightarrow> real \<Rightarrow> (string \<Rightarrow> bool) \<Rightarrow> native_env \<Rightarrow> event list \<times> blob promise"
where
  "nativeBrowserAudioExtraction videoFile cb duration isTypeSupported (SetupThrows m) =
     (Started NativeExtractor # report cb 10,
      Rejected (Error (''Native audio extraction setup failed: '' @ m)))"
| "nativeBrowserAudioExtraction videoFile cb duration isTypeSupported MetadataNeverLoads =
     (Started NativeExtractor # report cb 10, Pending)"
| "nativeBrowserAudioExtraction videoFile cb duration isTypeSupported (AudioGraphThrows m) =
     (Started NativeExtractor # report cb 10 @ report cb 20,
      Rejected (Error (''Audio context setup failed: '' @ m)))"
| "nativeBrowserAudioExtraction videoFile cb duration isTypeSupported (RecorderThrows m) =
     (Started NativeExtractor # report cb 10 @ report cb 20 @ report cb 30,
      Rejected (Error (''Audio context setup failed: '' @ m)))"
| "nativeBrowserAudioExtraction videoFile cb duration isTypeSupported (PlayRejected e) =
     (Started NativeExtractor # report cb 10 @ report cb 20 @ report cb 30, Rejected e)"
| "nativeBrowserAudioExtraction videoFile cb duration isTypeSupported
       (Plays ticks (VideoErrorEvent m)) =
     (Started NativeExtractor # report cb 10 @ report cb 20 @ report cb 30
        @ concat (map (tick cb duration) ticks),
      Rejected (Error (''Video loading failed: '' @ messageOr m ''Unknown error'')))"
| "nativeBrowserAudioExtraction videoFile cb duration isTypeSupported
       (Plays ticks (VideoEnded chunks)) =
     (Started NativeExtractor # report cb 10 @ report cb 20 @ report cb 30
        @ concat (map (tick cb duration) ticks) @ report cb 90 @ report cb 100,
      Resolved \<lparr>size = sum_list (filter (\<lambda>n. n > 0) chunks),
                mimeType = selectMimeType isTypeSupported\<rparr>)"

text \<open>
  The engine's part in \<open>ffmpegAudioExtraction\<close>: loading FFmpeg fails, writing the input
  file throws, the run throws, reading the output or the clean-up throws, or the run
  completes with an output of the given size.
\<close>

datatype ffmpeg_env =
    LoadFails
  | WriteFileThrows string
  | RunThrows string
  | ReadFileThrows string
  | FfmpegCompletes nat

definition ffmpegFailed :: "string \<Rightarrow> blob promise" where
  "ffmpegFailed m = Rejected (Error (''FFmpeg audio extraction failed: '' @ m))"

fun ffmpegAudioExtraction :: "blob \<Rightarrow> bool \<Rightarrow> ffmpeg_env \<Rightarrow> event list \<times> blob promise" where
  "ffmpegAudioExtraction videoFile cb LoadFails =
     ([Started EngineExtractor],
      ffmpegFailed (''Failed to initialize video processing. ''
                    @ ''Your browser may not support this feature.''))"
| "ffmpegAudioExtraction videoFile cb (WriteFileThrows m) =
     (Started EngineExtractor # report cb 20, ffmpegFailed m)"
| "ffmpegAudioExtraction videoFile cb (RunThrows m) =
     (Started EngineExtractor # report cb 20 @ report cb 40, ffmpegFailed m)"
| "ffmpegAudioExtraction videoFile cb (ReadFileThrows m) =
     (Started EngineExtractor # report cb 20 @ report cb 40 @ report cb 80, ffmpegFailed m)"
| "ffmpegAudioExtraction videoFile cb (FfmpegCompletes n) =
     (Started EngineExtractor # report cb 20 @ report cb 40 @ report cb 80 @ report cb 100,
      Resolved \<lparr>size = n, mimeType = ''audio/mp3''\<rparr>)"

text \<open>
  \<open>extractAudioOnly\<close>: report 5, await the native extraction, and in the \<open>catch\<close>
  await the FFmpeg extraction. A rejection of the FFmpeg extraction leaves the function
  as its own rejection.
\<close>

definition extractAudioOnly ::
  "blob \<Rightarrow> bool \<Rightarrow> real \<Rightarrow> (string \<Rightarrow> bool) \<Rightarrow> native_env \<Rightarrow> ffmpeg_env
     \<Rightarrow> event list \<times> blob promise"
where
  "extractAudioOnly videoFile cb duration isTypeSupported nenv fenv =
     (case nativeBrowserAudioExtraction videoFile cb duration isTypeSupported nenv of
        (es, Resolved audioBlob) \<Rightarrow> (report cb 5 @ es, Resolved audioBlob)
      | (es, Pending) \<Rightarrow> (report cb 5 @ es, Pending)
      | (es, Rejected error) \<Rightarrow>
          (case ffmpegAudioExtraction videoFile cb fenv of
             (es', r) \<Rightarrow> (report cb 5 @ es @ es', r)))"

text \<open>
  Playback runs forwards: the positions the interval timer sees do not decrease and lie
  between 0 and the duration of the video.
\<close>

fun playbackForward :: "real \<Rightarrow> native_env \<Rightarrow> bool" where
  "playbackForward d (Plays ticks e) =
     (0 \<le> d \<and> sorted ticks \<and> (\<forall>t\<in>set ticks. 0 \<le> t \<and> t \<le> d))"
| "playbackForward d nenv = True"

text \<open>A browser whose \<open>MediaRecorder.isTypeSupported\<close> accepts only \<open>audio/webm\<close>.\<close>

definition webmOnly :: "string \<Rightarrow> bool" where
  "webmOnly t = (t = ''audio/webm'')"

definition sampleVideo :: blob where
  "sampleVideo = \<lparr>size = 1000000, mimeType = ''video/mp4''\<rparr>"

section \<open>transcriptionService.js: the simulated transcription\<close>

record segment =
  seg_id :: int
  startTime :: real
  endTime :: real
  seg_text :: string
  confidence :: real

definition phrases :: "string list" where
  "phrases =
    [''Welcome to our comprehensive video presentation.'',
     ''Today we'll be discussing the key features and capabilities of our new platform.'',
     ''Our application is designed to be user-friendly, intuitive, and scalable for enterprise use.'',
     ''Let's start by examining the dashboard interface and its various components.'',
     ''As you can see, the analytics section provides comprehensive insights into user behavior.'',
     ''Users can easily navigate between different sections using the responsive sidebar menu.'',
     ''One of the most powerful features is the ability to generate custom reports and visualizations.'',
     ''Data visualization tools help make sense of complex information and trends over time.'',
     ''Security is a top priority in our application design and architecture.'',
     ''All user data is encrypted both in transit and at rest using industry-standard protocols.'',
     ''The collaboration tools enable teams to work together effectively across different time zones.'',
     ''Real-time updates ensure everyone has access to the latest information and changes.'',
     ''Let's move on to the mobile experience and responsive design capabilities.'',
     ''Our responsive design works seamlessly across all devices and screen sizes.'',
     ''Push notifications keep users informed about important updates and deadlines.'',
     ''The offline mode allows for productivity even without a stable internet connection.'',
     ''Integration with third-party services extends the platform's capabilities significantly.'',
     ''API documentation is comprehensive, well-maintained, and includes practical examples.'',
     ''Performance optimization ensures fast loading times even with large datasets.'',
     ''Automated backup systems protect against data loss and ensure business continuity.'',
     ''User access controls and permissions provide granular security management.'',
     ''The reporting system generates detailed analytics and insights for decision making.'',
     ''Customizable workflows adapt to different business processes and requirements.'',
     ''Let's summarize what we've covered in today's comprehensive demonstration.'',
     ''Thank you for watching this detailed presentation of our platform capabilities.'']"

text \<open>
  \<open>Math.random()\<close> is a source of numbers consumed in call order: \<open>random k\<close> is the
  value of the \<open>k\<close>-th call, and every function that draws from it returns the count of
  calls made so far.
\<close>

type_synonym random_source = "nat \<Rightarrow> real"

definition constRandom :: "real \<Rightarrow> random_source" where
  "constRandom r k = r"

text \<open>
  The \<open>for\<close> loop of \<open>generateOptimizedTranscription\<close>, with its variables
  \<open>i\<close>, \<open>currentTime\<close>, \<open>segmentId\<close> and \<open>segments\<close>. Each iteration calls
  \<open>Math.random()\<close> three times: for the segment duration, for the decision to append
  the next phrase, and for the confidence. Segment ids are at least 1 whenever the loop
  runs, so the phrase index \<open>(segmentId - 1) % phrases.length\<close> is not negative.
\<close>

function genLoop ::
  "real \<Rightarrow> real \<Rightarrow> int \<Rightarrow> random_source \<Rightarrow> nat \<Rightarrow> real \<Rightarrow> int \<Rightarrow> segment list \<Rightarrow> nat
     \<Rightarrow> segment list \<times> nat"
where
  "genLoop duration startOffset segmentCount random i currentTime segmentId segments k =
     (if int i < segmentCount \<and> currentTime < startOffset + duration then
        let segmentDuration =
              min (8 + (random k * 4 - 2)) ((startOffset + duration) - currentTime);
            endTime' = currentTime + segmentDuration;
            phraseIndex = nat ((segmentId - 1) mod int (length phrases));
            text0 = phrases ! phraseIndex;
            text' = (if random (k + 1) > 8 / 10 \<and> int i < segmentCount - 1
                     then text0 @ '' '' @ phrases ! ((phraseIndex + 1) mod length phrases)
                     else text0)
        in genLoop duration startOffset segmentCount random (i + 1) endTime' (segmentId + 1)
             (segments @ [\<lparr>seg_id = segmentId, startTime = currentTime, endTime = endTime',
                             seg_text = text', confidence = random (k + 2) * (15 / 100) + 85 / 100\<rparr>])
             (k + 3)
      else (segments, k))"
  by pat_completeness auto
termination
  by (relation "measure (\<lambda>(duration, startOffset, segmentCount, random, i, rest).
                   nat (segmentCount - int i))") auto

declare genLoop.simps [simp del]

definition generateOptimizedTranscription ::
  "real \<Rightarrow> real \<Rightarrow> random_source \<Rightarrow> nat \<Rightarrow> segment list \<times> nat"
where
  "generateOptimizedTranscription duration startOffset random k =
     (let segmentId = \<lfloor>startOffset / 8\<rfloor> + 1;
          avgSegmentDuration = 8;
          segmentCount = \<lceil>duration / avgSegmentDuration\<rceil>
      in genLoop duration startOffset segmentCount random 0 startOffset segmentId [] k)"

text \<open>
  The options object of \<open>transcribeAudio\<close>; \<open>progressCallback\<close> says whether a callback
  was passed. \<open>options.duration || 60\<close> replaces a missing or zero duration by 60.
\<close>

record options =
  language :: "string option"
  model :: "string option"
  duration :: "real option"
  progressCallback :: bool

fun durationOr60 :: "real option \<Rightarrow> real" where
  "durationOr60 None = 60"
| "durationOr60 (Some d) = (if d = 0 then 60 else d)"

text \<open>
  What a transcription run does: the routine entered, each percentage handed to the
  progress callback, each \<open>audioBlob.slice(start, end)\<close>, and each chunk result pushed
  onto \<open>chunks\<close>.
\<close>

datatype transcription_mode = Direct | Chunked

datatype transcription_event =
    Entered transcription_mode
  | Report real
  | Slice nat nat
  | Push "segment list"

fun notify :: "bool \<Rightarrow> real \<Rightarrow> transcription_event list" where
  "notify True p = [Report p]"
| "notify False p = []"

fun entered :: "transcription_event list \<Rightarrow> transcription_mode list" where
  "entered [] = []"
| "entered (Entered m # es) = m # entered es"
| "entered (e # es) = entered es"

fun slices :: "transcription_event list \<Rightarrow> (nat \<times> nat) list" where
  "slices [] = []"
| "slices (Slice a b # es) = (a, b) # slices es"
| "slices (e # es) = slices es"

fun pushes :: "transcription_event list \<Rightarrow> segment list list" where
  "pushes [] = []"
| "pushes (Push ss # es) = ss # pushes es"
| "pushes (e # es) = pushes es"

text \<open>
  \<open>transcribeAudioDirect\<close>. While the simulated processing time
  \<open>baseProcessingTime\<close> runs, a 200 ms interval timer reports
  \<open>30 + min(elapsed / baseProcessingTime * 60, 60)\<close>; \<open>elapsed\<close> lists the elapsed
  times at which it fires, and the timer is cleared once the processing time is over.
\<close>

definition transcribeAudioDirect ::
  "blob \<Rightarrow> options \<Rightarrow> random_source \<Rightarrow> real list
     \<Rightarrow> transcription_event list \<times> segment list"
where
  "transcribeAudioDirect audioBlob opts random elapsed =
     (let cb = progressCallback opts;
          audioSizeMB = real (size audioBlob) / (1024 * 1024);
          baseProcessingTime = min (audioSizeMB * 50) 3000;
          simulatedResponse =
            fst (generateOptimizedTranscription (durationOr60 (duration opts)) 0 random 0)
      in (Entered Direct # notify cb 30
            @ concat (map (\<lambda>e. notify cb (30 + min ((e / baseProcessingTime) * 60) 60))
                          (filter (\<lambda>e. e < baseProcessingTime) elapsed))
            @ notify cb 90,
          simulatedResponse))"

text \<open>The \<open>for\<close> loop of \<open>transcribeAudioInChunks\<close> over the chunk index \<open>i\<close>.\<close>

function chunkLoop ::
  "blob \<Rightarrow> options \<Rightarrow> nat \<Rightarrow> nat \<Rightarrow> random_source \<Rightarrow> nat \<Rightarrow> segment list \<Rightarrow> nat
     \<Rightarrow> transcription_event list \<times> segment list \<times> nat"
where
  "chunkLoop audioBlob opts chunkSize totalChunks random i chunks k =
     (if i < totalChunks then
        let start = i * chunkSize;
            end' = min (start + chunkSize) (size audioBlob);
            progress = (real i / real totalChunks) * 60;
            chunkDuration = durationOr60 (duration opts) / real totalChunks;
            (chunkResult, k') =
              generateOptimizedTranscription chunkDuration (real i * chunkDuration) random k;
            (es, r) = chunkLoop audioBlob opts chunkSize totalChunks random (i + 1)
                        (chunks @ chunkResult) k'
        in (Slice start end' # notify (progressCallback opts) (25 + progress)
              @ Push chunkResult # es, r)
      else ([], chunks, k))"
  by pat_completeness auto
termination
  by (relation "measure (\<lambda>(audioBlob, opts, chunkSize, totalChunks, random, i, rest).
                   totalChunks - i)") auto

declare chunkLoop.simps [simp del]

definition transcribeAudioInChunks ::
  "blob \<Rightarrow> options \<Rightarrow> random_source \<Rightarrow> transcription_event list \<times> segment list"
where
  "transcribeAudioInChunks audioBlob opts random =
     (let cb = progressCallback opts;
          chunkSize = 20 * 1024 * 1024;
          totalChunks = nat \<lceil>real (size audioBlob) / real chunkSize\<rceil>;
          (es, chunks, k) = chunkLoop audioBlob opts chunkSize totalChunks random 0 [] 0
      in (Entered Chunked # notify cb 25 @ es @ notify cb 90, chunks))"

text \<open>
  \<open>transcribeAudio\<close>. The simulated backend never throws, so the \<open>catch\<close> block that
  rewrites errors is not reached and the function always returns its segments.
\<close>

definition transcribeAudio ::
  "blob \<Rightarrow> options \<Rightarrow> random_source \<Rightarrow> real list
     \<Rightarrow> transcription_event list \<times> segment list"
where
  "transcribeAudio audioBlob opts random elapsed =
     (let audioSizeMB = real (size audioBlob) / (1024 * 1024);
          isLargeAudio = audioSizeMB > 25
      in if isLargeAudio \<and> progressCallback opts then
           (case transcribeAudioInChunks audioBlob opts random of
              (es, r) \<Rightarrow> (notify (progressCallback opts) 10 @ notify (progressCallback opts) 20 @ es, r))
         else
           (case transcribeAudioDirect audioBlob opts random elapsed of
              (es, r) \<Rightarrow> (notify (progressCallback opts) 10 @ es, r)))"

definition audioOfMB :: "nat \<Rightarrow> blob" where
  "audioOfMB n = \<lparr>size = n * 1024 * 1024, mimeType = ''audio/webm''\<rparr>"

definition optionsWith :: "real \<Rightarrow> bool \<Rightarrow> options" where
  "optionsWith d cb = \<lparr>language = Some ''en-US'', model = Some ''standard'',
                        duration = Some d, progressCallback = cb\<rparr>"

section \<open>The byte ranges of a chunked run\<close>

text \<open>
  The byte ranges \<open>[i * 20MB, min((i + 1) * 20MB, n))\<close> for
  \<open>i < ceil(n / 20MB)\<close>, which the chunk loop is shown to slice.
\<close>

definition chunkBytes :: nat where
  "chunkBytes = 20 * 1024 * 1024"

definition byteRanges :: "nat \<Rightarrow> (nat \<times> nat) list" where
  "byteRanges n = map (\<lambda>i. (i * chunkBytes, min (i * chunkBytes + chunkBytes) n))
                      [0..<nat \<lceil>real n / real chunkBytes\<rceil>]"

section \<open>transcriptionService.js: formatting for export\<close>

text \<open>
  Strings are lists of 8-bit characters. \<open>toLowerCase\<close> maps the letters \<open>A\<close> to
  \<open>Z\<close> to \<open>a\<close> to \<open>z\<close> and leaves every other character alone; no character
  outside ASCII has a lower-case form that is a letter of \<open>txt\<close>, \<open>srt\<close>,
  \<open>vtt\<close>, \<open>html\<close> or \<open>docx\<close>, so the comparisons below come out as in
  JavaScript.
\<close>

definition lowerChar :: "char \<Rightarrow> char" where
  "lowerChar c =
     (case map_of (zip ''ABCDEFGHIJKLMNOPQRSTUVWXYZ'' ''abcdefghijklmnopqrstuvwxyz'') c of
        None \<Rightarrow> c
      | Some l \<Rightarrow> l)"

definition toLowerCase :: "string \<Rightarrow> string" where
  "toLowerCase s = map lowerChar s"

definition newline :: string where
  "newline = [CHR 0x0A]"

text \<open>\<open>Array.prototype.join\<close> on an array of strings.\<close>

fun join :: "string \<Rightarrow> string list \<Rightarrow> string" where
  "join sep [] = []"
| "join sep [x] = x"
| "join sep (x # y # ys) = x @ sep @ join sep (y # ys)"

text \<open>
  \<open>String(n)\<close> for an integer \<open>n\<close> (below \<open>10^21\<close> in absolute value, where
  JavaScript still prints all digits), \<open>padStart\<close>, and the remainder operator
  \<open>%\<close>, whose result has the sign of the dividend. The time formatters below take
  the remainder and the floor of exact reals: for a time that is not exactly
  representable the code's rounding can make the millisecond field differ by one.
\<close>

fun digits :: "nat \<Rightarrow> string" where
  "digits n = (if n < 10 then [char_of (48 + n)] else digits (n div 10) @ [char_of (48 + n mod 10)])"

declare digits.simps [simp del]

definition jsString :: "int \<Rightarrow> string" where
  "jsString n = (if n < 0 then ''-'' @ digits (nat (- n)) else digits (nat n))"

definition padStart :: "nat \<Rightarrow> char \<Rightarrow> string \<Rightarrow> string" where
  "padStart targetLength c s = replicate (targetLength - length s) c @ s"

definition jsRem :: "real \<Rightarrow> real \<Rightarrow> real" where
  "jsRem a b = a - b * of_int (if a / b < 0 then \<lceil>a / b\<rceil> else \<lfloor>a / b\<rfloor>)"

definition formatSrtTime :: "real \<Rightarrow> string" where
  "formatSrtTime seconds =
     (let hours = \<lfloor>seconds / 3600\<rfloor>;
          minutes = \<lfloor>jsRem seconds 3600 / 60\<rfloor>;
          secs = \<lfloor>jsRem seconds 60\<rfloor>;
          ms = \<lfloor>jsRem seconds 1 * 1000\<rfloor>
      in padStart 2 (CHR ''0'') (jsString hours) @ '':''
         @ padStart 2 (CHR ''0'') (jsString minutes) @ '':''
         @ padStart 2 (CHR ''0'') (jsString secs) @ '',''
         @ padStart 3 (CHR ''0'') (jsString ms))"

definition formatVttTime :: "real \<Rightarrow> string" where
  "formatVttTime seconds =
     (let hours = \<lfloor>seconds / 3600\<rfloor>;
          minutes = \<lfloor>jsRem seconds 3600 / 60\<rfloor>;
          secs = \<lfloor>jsRem seconds 60\<rfloor>;
          ms = \<lfloor>jsRem seconds 1 * 1000\<rfloor>
      in padStart 2 (CHR ''0'') (jsString hours) @ '':''
         @ padStart 2 (CHR ''0'') (jsString minutes) @ '':''
         @ padStart 2 (CHR ''0'') (jsString secs) @ ''.''
         @ padStart 3 (CHR ''0'') (jsString ms))"

text \<open>
  \<open>formatTranscriptionForExport\<close>. The data argument may be \<open>null\<close> or
  \<open>undefined\<close> (\<open>None\<close>); the format argument is a string.
\<close>

definition formatTranscriptionForExport :: "segment list option \<Rightarrow> string \<Rightarrow> string" where
  "formatTranscriptionForExport transcriptionData fmt =
     (case transcriptionData of
        None \<Rightarrow> []
      | Some segs \<Rightarrow>
          if length segs = 0 then []
          else if toLowerCase fmt = ''txt'' then
            join (newline @ newline) (map seg_text segs)
          else if toLowerCase fmt = ''srt'' then
            join newline
              (map (\<lambda>(index, s). jsString (int index + 1) @ newline
                      @ formatSrtTime (startTime s) @ '' --> '' @ formatSrtTime (endTime s)
                      @ newline @ seg_text s @ newline)
                   (enumerate 0 segs))
          else if toLowerCase fmt = ''vtt'' then
            ''WEBVTT'' @ newline @ newline
            @ join (newline @ newline)
                (map (\<lambda>(index, s). jsString (int index + 1) @ newline
                        @ formatVttTime (startTime s) @ '' --> '' @ formatVttTime (endTime s)
                        @ newline @ seg_text s)
                     (enumerate 0 segs))
          else join (newline @ newline) (map seg_text segs))"

section \<open>TranscriptionPanel: editing a segment\<close>

text \<open>The state of the panel component and the handlers that change the edit text.\<close>

record panel_state =
  searchTerm :: string
  editingId :: "int option"
  editText :: string
  editedData :: "segment list"
  copiedIndex :: "string option"

definition handleEdit :: "segment \<Rightarrow> panel_state \<Rightarrow> panel_state" where
  "handleEdit item st = st\<lparr>editingId := Some (seg_id item), editText := seg_text item\<rparr>"

definition setEditText :: "string \<Rightarrow> panel_state \<Rightarrow> panel_state" where
  "setEditText t st = st\<lparr>editText := t\<rparr>"

definition handleSaveEdit :: "int \<Rightarrow> panel_state \<Rightarrow> panel_state" where
  "handleSaveEdit ident st =
     st\<lparr>editedData :=
          map (\<lambda>item. if seg_id item = ident then item\<lparr>seg_text := editText st\<rparr> else item)
              (editedData st),
        editingId := None,
        editText := []\<rparr>"

definition sampleSegments :: "segment list" where
  "sampleSegments =
     [\<lparr>seg_id = 1, startTime = 0, endTime = 8, seg_text = ''Welcome.'', confidence = 9 / 10\<rparr>,
      \<lparr>seg_id = 2, startTime = 8, endTime = 15, seg_text = ''Today.'', confidence = 9 / 10\<rparr>]"

definition samplePanel :: panel_state where
  "samplePanel = \<lparr>searchTerm = [], editingId = Some 2, editText = ''Today.'',
                   editedData = sampleSegments, copiedIndex = None\<rparr>"

section \<open>exportService.js and ExportModal: exporting several items\<close>

text \<open>
  \<open>exportTranscription\<close>. The generated content only goes into the file that is saved,
  so the model keeps the checks, the file name and the outcome. Saving is the browser's
  part: \<open>saveFails name\<close> is the message of the error thrown while the file \<open>name\<close>
  is built and saved, if any. \<open>exportAsDocx\<close> replaces such an error by its own.
\<close>

record export_result =
  success :: bool
  filename :: string

definition exportTranscription ::
  "segment list option \<Rightarrow> string \<Rightarrow> string \<Rightarrow> string \<Rightarrow> (string \<Rightarrow> string option)
     \<Rightarrow> js_error + export_result"
where
  "exportTranscription transcriptionData exportType fileFormat baseFilename saveFails =
     (if transcriptionData = None \<or> transcriptionData = Some [] then
        Inl (Error ''No transcription data available for export.'')
      else
        (case (if exportType = ''full'' then Some (baseFilename @ ''_full_transcript'')
               else if exportType = ''summary'' then Some (baseFilename @ ''_summary'')
               else if exportType = ''keypoints'' then Some (baseFilename @ ''_key_points'')
               else None) of
           None \<Rightarrow> Inl (Error ''Invalid export type specified.'')
         | Some name \<Rightarrow>
             if toLowerCase fileFormat = ''txt'' then
               (case saveFails (name @ ''.txt'') of
                  Some m \<Rightarrow> Inl (Error m)
                | None \<Rightarrow> Inr \<lparr>success = True, filename = name @ ''.'' @ fileFormat\<rparr>)
             else if toLowerCase fileFormat = ''html'' then
               (case saveFails (name @ ''.html'') of
                  Some m \<Rightarrow> Inl (Error m)
                | None \<Rightarrow> Inr \<lparr>success = True, filename = name @ ''.'' @ fileFormat\<rparr>)
             else if toLowerCase fileFormat = ''docx'' then
               (case saveFails (name @ ''.docx'') of
                  Some m \<Rightarrow>
                    Inl (Error ''Failed to create DOCX file. Please try a different format.'')
                | None \<Rightarrow> Inr \<lparr>success = True, filename = name @ ''.'' @ fileFormat\<rparr>)
             else Inl (Error ''Invalid file format specified.'')))"

text \<open>
  The modal's \<open>selectedExports\<close> object, as its entries in key order (\<open>full\<close>,
  \<open>summary\<close>, \<open>keypoints\<close>), and one entry of the \<open>results\<close> array.
\<close>

record export_config =
  enabled :: bool
  format :: string

record export_entry =
  entry_type :: string
  entry_format :: string
  entry_filename :: "string option"
  entry_success :: bool
  entry_error :: "string option"

text \<open>The \<open>for ... of\<close> loop of \<open>handleExportAll\<close> with its \<open>try\<close>/\<open>catch\<close>.\<close>

fun exportLoop ::
  "segment list option \<Rightarrow> string \<Rightarrow> (string \<Rightarrow> string option)
     \<Rightarrow> (string \<times> export_config) list \<Rightarrow> export_entry list \<Rightarrow> export_entry list"
where
  "exportLoop transcriptionData baseFilename saveFails [] results = results"
| "exportLoop transcriptionData baseFilename saveFails ((exportType, config) # rest) results =
     (case exportTranscription transcriptionData exportType (format config) baseFilename
             saveFails of
        Inr result \<Rightarrow>
          exportLoop transcriptionData baseFilename saveFails rest
            (results @ [\<lparr>entry_type = exportType, entry_format = format config,
                          entry_filename = Some (filename result), entry_success = True,
                          entry_error = None\<rparr>])
      | Inl err \<Rightarrow>
          exportLoop transcriptionData baseFilename saveFails rest
            (results @ [\<lparr>entry_type = exportType, entry_format = format config,
                          entry_filename = None, entry_success = False,
                          entry_error = Some (message err)\<rparr>]))"

text \<open>
  \<open>handleExportAll\<close>: the base file name is the video's name up to its first dot, or
  \<open>transcription\<close> when there is no name; the result is what \<open>setExportResults\<close>
  receives.
\<close>

definition handleExportAll ::
  "string option \<Rightarrow> (string \<times> export_config) list \<Rightarrow> segment list option
     \<Rightarrow> (string \<Rightarrow> string option) \<Rightarrow> export_entry list"
where
  "handleExportAll videoFileName selectedExports transcriptionData saveFails =
     (let baseFilename =
            (case videoFileName of
               None \<Rightarrow> ''transcription''
             | Some n \<Rightarrow> if n = [] then ''transcription'' else takeWhile (\<lambda>c. c \<noteq> CHR ''.'') n);
          enabledExports = filter (\<lambda>(key, config). enabled config) selectedExports
      in exportLoop transcriptionData baseFilename saveFails enabledExports [])"

text \<open>
  What one entry of the results must be for one selected export: the outcome of
  \<open>exportTranscription\<close> for that item alone.
\<close>

definition entryFor ::
  "segment list option \<Rightarrow> string \<Rightarrow> (string \<Rightarrow> string option) \<Rightarrow> string \<times> export_config
     \<Rightarrow> export_entry"
where
  "entryFor transcriptionData baseFilename saveFails item =
     (case exportTranscription transcriptionData (fst item) (format (snd item)) baseFilename
             saveFails of
        Inr result \<Rightarrow>
          \<lparr>entry_type = fst item, entry_format = format (snd item),
           entry_filename = Some (filename result), entry_success = True, entry_error = None\<rparr>
      | Inl err \<Rightarrow>
          \<lparr>entry_type = fst item, entry_format = format (snd item),
           entry_filename = None, entry_success = False, entry_error = Some (message err)\<rparr>)"

definition sampleExports :: "(string \<times> export_config) list" where
  "sampleExports = [(''full'', \<lparr>enabled = True, format = ''txt''\<rparr>),
                    (''summary'', \<lparr>enabled = True, format = ''docx''\<rparr>),
                    (''keypoints'', \<lparr>enabled = True, format = ''html''\<rparr>)]"

definition docxFails :: "string \<Rightarrow> string option" where
  "docxFails name = (if name = ''talk_summary.docx'' then Some ''Packer failed'' else None)"

section \<open>Recommended settings: the step function\<close>

text \<open>
  C1. For every size in bytes \<open>s \<ge> 0\<close> the recommended settings are determined by the
  size in GB alone: above 4 GB Low/854x480/24/96k, above 2 GB and up to 4 GB
  Low/1280x720/24/128k, above 1 GB and up to 2 GB Medium/1280x720/30/128k, and up to
  1 GB High/1920x1080/30/192k. A size \<open>t\<close> at least as large as \<open>s\<close> never gets a
  better quality tier than \<open>s\<close>.
\<close>

theorem getRecommendedCompressionSettings_step:
  assumes "0 \<le> s" and "0 \<le> t"
  shows "(4 * GB < s \<longrightarrow> getRecommendedCompressionSettings s =
            \<lparr>quality = Low, maxWidth = 854, maxHeight = 480, frameRate = 24,
             audioBitrate = ''96k''\<rparr>)
       \<and> (2 * GB < s \<and> s \<le> 4 * GB \<longrightarrow> getRecommendedCompressionSettings s =
            \<lparr>quality = Low, maxWidth = 1280, maxHeight = 720, frameRate = 24,
             audioBitrate = ''128k''\<rparr>)
       \<and> (GB < s \<and> s \<le> 2 * GB \<longrightarrow> getRecommendedCompressionSettings s =
            \<lparr>quality = Medium, maxWidth = 1280, maxHeight = 720, frameRate = 30,
             audioBitrate = ''128k''\<rparr>)
       \<and> (s \<le> GB \<longrightarrow> getRecommendedCompressionSettings s =
            \<lparr>quality = High, maxWidth = 1920, maxHeight = 1080, frameRate = 30,
             audioBitrate = ''192k''\<rparr>)
       \<and> (s \<le> t \<longrightarrow>
            qualityRank (quality (getRecommendedCompressionSettings t))
              \<le> qualityRank (quality (getRecommendedCompressionSettings s)))"
  by (simp add: getRecommendedCompressionSettings_def GB_def Let_def)

theorem getRecommendedCompressionSettings_step_witness:
  "(0::real) \<le> 3 * GB \<and> (0::real) \<le> 5 * GB \<and> 2 * GB < 3 * GB \<and> 3 * GB \<le> 4 * GB
   \<and> 3 * GB \<le> 5 * GB
   \<and> getRecommendedCompressionSettings (3 * GB) =
        \<lparr>quality = Low, maxWidth = 1280, maxHeight = 720, frameRate = 24,
         audioBitrate = ''128k''\<rparr>
   \<and> qualityRank (quality (getRecommendedCompressionSettings (5 * GB)))
        \<le> qualityRank (quality (getRecommendedCompressionSettings (3 * GB)))"
proof -
  have h: "(0::real) \<le> 3 * GB" "(0::real) \<le> 5 * GB" "2 * GB < 3 * GB" "3 * GB \<le> 4 * GB"
    "3 * GB \<le> 5 * GB"
    by (simp_all add: GB_def)
  from getRecommendedCompressionSettings_step [OF h(1) h(2)] h show ?thesis
    by blast
qed

text \<open>
  C7, as the code has it. A 600 MB input is below the 1 GB threshold, so it falls into
  the last branch: High, 1920x1080, 30 fps, 192k.
\<close>

theorem getRecommendedCompressionSettings_600MB:
  "getRecommendedCompressionSettings (600 * MB) =
     \<lparr>quality = High, maxWidth = 1920, maxHeight = 1080, frameRate = 30,
      audioBitrate = ''192k''\<rparr>"
  by (simp add: getRecommendedCompressionSettings_def MB_def Let_def)

text \<open>
  C7, as the claim states it, fails: the settings returned for 600 MB are not
  Medium/1280x720/30/128k.
\<close>

theorem getRecommendedCompressionSettings_600MB_not_medium:
  "getRecommendedCompressionSettings (600 * MB) \<noteq>
     \<lparr>quality = Medium, maxWidth = 1280, maxHeight = 720, frameRate = 30,
      audioBitrate = ''128k''\<rparr>"
  by (simp add: getRecommendedCompressionSettings_def MB_def Let_def)

section \<open>Audio extraction: fallback and progress\<close>

lemma started_report [simp]: "started (report cb p) = []"
  by (cases cb) simp_all

lemma started_append [simp]: "started (xs @ ys) = started xs @ started ys"
  by (induction xs rule: started.induct) simp_all

lemma started_ticks [simp]: "started (concat (map (tick cb d) ts)) = []"
  by (induction ts) (simp_all add: tick_def)

lemma percents_append [simp]: "percents (xs @ ys) = percents xs @ percents ys"
  by (induction xs rule: percents.induct) simp_all

lemma started_native:
  "started (fst (nativeBrowserAudioExtraction f cb d supported nenv)) = [NativeExtractor]"
  by (induction f cb d supported nenv rule: nativeBrowserAudioExtraction.induct) simp_all

lemma started_ffmpeg:
  "started (fst (ffmpegAudioExtraction f cb fenv)) = [EngineExtractor]"
  by (cases fenv) simp_all

lemma ffmpeg_outcome:
  "(case fenv of
      FfmpegCompletes n \<Rightarrow>
        snd (ffmpegAudioExtraction f cb fenv) = Resolved \<lparr>size = n, mimeType = ''audio/mp3''\<rparr>
    | _ \<Rightarrow> (\<exists>m. snd (ffmpegAudioExtraction f cb fenv)
                 = Rejected (Error (''FFmpeg audio extraction failed: '' @ m))))"
  by (cases fenv) (simp_all add: ffmpegFailed_def)

text \<open>
  The failures of the native extraction that reject its promise do reach the fallback:
  \<open>extractAudioOnly\<close> then starts the FFmpeg extraction once (the run starts the native
  extractor, then the engine extractor, and nothing else) and its outcome is the outcome of
  that FFmpeg run: the \<open>audio/mp3\<close> blob when FFmpeg completes, and otherwise a rejection
  with an \<open>Error\<close> whose message begins with \<open>FFmpeg audio extraction failed: \<close>.
\<close>

lemma extractAudioOnly_fallback:
  assumes "snd (nativeBrowserAudioExtraction f cb d supported nenv) = Rejected e"
  shows "snd (extractAudioOnly f cb d supported nenv fenv) = snd (ffmpegAudioExtraction f cb fenv)
       \<and> started (fst (extractAudioOnly f cb d supported nenv fenv)) = [NativeExtractor, EngineExtractor]
       \<and> (case fenv of
            FfmpegCompletes n \<Rightarrow>
              snd (extractAudioOnly f cb d supported nenv fenv)
                = Resolved \<lparr>size = n, mimeType = ''audio/mp3''\<rparr>
          | _ \<Rightarrow> (\<exists>m. snd (extractAudioOnly f cb d supported nenv fenv)
                       = Rejected (Error (''FFmpeg audio extraction failed: '' @ m))))"
proof -
  obtain es where n: "nativeBrowserAudioExtraction f cb d supported nenv = (es, Rejected e)"
    using assms by (cases "nativeBrowserAudioExtraction f cb d supported nenv") simp
  obtain es' r where g: "ffmpegAudioExtraction f cb fenv = (es', r)"
    by (cases "ffmpegAudioExtraction f cb fenv")
  have 1: "extractAudioOnly f cb d supported nenv fenv = (report cb 5 @ es @ es', r)"
    by (simp add: extractAudioOnly_def n g)
  have 2: "started es = [NativeExtractor]" using started_native [of f cb d supported nenv] n by simp
  have 3: "started es' = [EngineExtractor]" using started_ffmpeg [of f cb fenv] g by simp
  have eq: "snd (extractAudioOnly f cb d supported nenv fenv) = snd (ffmpegAudioExtraction f cb fenv)"
    by (simp add: 1 g)
  have st: "started (fst (extractAudioOnly f cb d supported nenv fenv))
              = [NativeExtractor, EngineExtractor]"
    by (simp add: 1 2 3)
  have c: "(case fenv of
            FfmpegCompletes n \<Rightarrow>
              snd (extractAudioOnly f cb d supported nenv fenv)
                = Resolved \<lparr>size = n, mimeType = ''audio/mp3''\<rparr>
          | _ \<Rightarrow> (\<exists>m. snd (extractAudioOnly f cb d supported nenv fenv)
                       = Rejected (Error (''FFmpeg audio extraction failed: '' @ m))))"
    using ffmpeg_outcome [where fenv=fenv and f=f and cb=cb] by (simp only: eq)
  show ?thesis using eq st c by blast
qed

lemma extractAudioOnly_fallback_example:
  "snd (nativeBrowserAudioExtraction sampleVideo True 60 webmOnly
          (PlayRejected (Error ''NotAllowedError''))) = Rejected (Error ''NotAllowedError'')
   \<and> snd (extractAudioOnly sampleVideo True 60 webmOnly
            (PlayRejected (Error ''NotAllowedError'')) (FfmpegCompletes 500))
       = Resolved \<lparr>size = 500, mimeType = ''audio/mp3''\<rparr>
   \<and> started (fst (extractAudioOnly sampleVideo True 60 webmOnly
            (PlayRejected (Error ''NotAllowedError'')) (FfmpegCompletes 500)))
       = [NativeExtractor, EngineExtractor]
   \<and> snd (extractAudioOnly sampleVideo True 60 webmOnly
            (PlayRejected (Error ''NotAllowedError'')) (RunThrows ''out of memory''))
       = Rejected (Error ''FFmpeg audio extraction failed: out of memory'')"
proof -
  have h: "snd (nativeBrowserAudioExtraction sampleVideo True 60 webmOnly
          (PlayRejected (Error ''NotAllowedError''))) = Rejected (Error ''NotAllowedError'')"
    by simp
  have a: "snd (extractAudioOnly sampleVideo True 60 webmOnly
              (PlayRejected (Error ''NotAllowedError'')) (FfmpegCompletes 500))
            = Resolved \<lparr>size = 500, mimeType = ''audio/mp3''\<rparr>
         \<and> started (fst (extractAudioOnly sampleVideo True 60 webmOnly
              (PlayRejected (Error ''NotAllowedError'')) (FfmpegCompletes 500)))
            = [NativeExtractor, EngineExtractor]"
    using extractAudioOnly_fallback [OF h, of "FfmpegCompletes 500"] by simp
  have b: "snd (extractAudioOnly sampleVideo True 60 webmOnly
              (PlayRejected (Error ''NotAllowedError'')) (RunThrows ''out of memory''))
            = Rejected (Error ''FFmpeg audio extraction failed: out of memory'')"
    using extractAudioOnly_fallback [OF h, of "RunThrows ''out of memory''"]
    by (simp add: ffmpegFailed_def)
  show ?thesis using h a b by blast
qed

text \<open>
  C6, at a failing input. The video file cannot be loaded by the browser: the element
  fires \<open>error\<close> before \<open>loadedmetadata\<close>, when no \<open>onerror\<close> handler is installed
  yet. The native extraction has failed, but its promise neither resolves nor rejects, so
  \<open>extractAudioOnly\<close> stays pending after the reports 5 and 10: the FFmpeg extraction,
  which would have completed, is never started, and no error reaches the caller.
\<close>

theorem extractAudioOnly_load_failure:
  "snd (extractAudioOnly sampleVideo True 60 webmOnly MetadataNeverLoads (FfmpegCompletes 500))
     = Pending
   \<and> started (fst (extractAudioOnly sampleVideo True 60 webmOnly MetadataNeverLoads
                     (FfmpegCompletes 500)))
     = [NativeExtractor]
   \<and> percents (fst (extractAudioOnly sampleVideo True 60 webmOnly MetadataNeverLoads
                      (FfmpegCompletes 500)))
     = [5, 10]"
  by (simp add: extractAudioOnly_def)

lemma tick_bounds:
  assumes "0 \<le> d" "0 \<le> t" "t \<le> d"
  shows "\<forall>p\<in>set (percents (tick True d t)). 30 \<le> p \<and> p \<le> 90"
proof (cases "d \<noteq> 0 \<and> t \<noteq> 0")
  case True
  then have "0 < d" using assms by simp
  then have "0 \<le> t * 60 / d" "t * 60 / d \<le> 60" using assms by (simp_all add: field_simps)
  then show ?thesis using True by (simp add: tick_def)
next
  case False then show ?thesis by (auto simp add: tick_def)
qed

lemma tick_mono:
  assumes "0 \<le> d" "t \<le> u"
  shows "\<forall>p\<in>set (percents (tick True d t)). \<forall>q\<in>set (percents (tick True d u)). p \<le> q"
  using assms by (auto simp add: tick_def divide_right_mono)

lemma ticks_sorted:
  assumes "0 \<le> d" "sorted ts" "\<forall>t\<in>set ts. 0 \<le> t \<and> t \<le> d"
  shows "sorted (percents (concat (map (tick True d) ts)))
       \<and> (\<forall>p\<in>set (percents (concat (map (tick True d) ts))). 30 \<le> p \<and> p \<le> 90)"
  using assms
proof (induction ts)
  case Nil then show ?case by simp
next
  case (Cons t ts)
  have a: "\<forall>p\<in>set (percents (tick True d t)). 30 \<le> p \<and> p \<le> 90"
    using tick_bounds [of d t] Cons.prems by simp
  have b: "sorted (percents (tick True d t))" by (simp add: tick_def)
  have c: "\<forall>p\<in>set (percents (tick True d t)). \<forall>u\<in>set ts. \<forall>q\<in>set (percents (tick True d u)). p \<le> q"
    using tick_mono [of d t] Cons.prems by auto
  have "\<forall>p\<in>set (percents (tick True d t)). \<forall>q\<in>set (percents (concat (map (tick True d) ts))). p \<le> q"
    using c by (induction ts) auto
  then show ?case using Cons a b by (auto simp add: sorted_append)
qed


lemma native_sorted:
  assumes "playbackForward d nenv"
  shows "sorted (percents (fst (nativeBrowserAudioExtraction f True d supported nenv)))"
proof (cases nenv)
  case (Plays ts e)
  with assms have "sorted (percents (concat (map (tick True d) ts)))"
    and "\<forall>p\<in>set (percents (concat (map (tick True d) ts))). 30 \<le> p \<and> p \<le> 90"
    using ticks_sorted [of d ts] by simp_all
  then show ?thesis using Plays by (cases e) (auto simp add: sorted_append)
qed simp_all

lemma ffmpeg_sorted: "sorted (percents (fst (ffmpegAudioExtraction f True fenv)))"
  by (cases fenv) simp_all

lemma ffmpeg_resolved:
  assumes "ffmpegAudioExtraction f True fenv = (es, Resolved b)"
  shows "percents es = [20, 40, 80, 100]"
  using assms by (cases fenv) (auto simp add: ffmpegFailed_def)


lemma native_ge_10:
  assumes "playbackForward d nenv"
  shows "\<forall>p\<in>set (percents (fst (nativeBrowserAudioExtraction f True d supported nenv))). 10 \<le> p \<and> p \<le> 100"
proof (cases nenv)
  case (Plays ts e)
  with assms have "\<forall>p\<in>set (percents (concat (map (tick True d) ts))). 30 \<le> p \<and> p \<le> 90"
    using ticks_sorted [of d ts] by simp
  then show ?thesis using Plays by (cases e) auto
qed simp_all

text \<open>
  C2, as the code has it. In a run of \<open>extractAudioOnly\<close> with a progress callback that
  returns a blob, with playback running forwards, the last percentage reported is 100;
  the reports of the native extraction are non-decreasing among themselves, and so are
  those of the FFmpeg extraction. The whole sequence is non-decreasing exactly when the
  native extraction delivered the blob or reported nothing above 20 before it rejected:
  the FFmpeg fallback starts its reports again at 20.
\<close>

theorem extractAudioOnly_progress:
  assumes run: "extractAudioOnly f True d supported nenv fenv = (es, Resolved b)"
      and fwd: "playbackForward d nenv"
  shows "percents es \<noteq> [] \<and> last (percents es) = 100
       \<and> sorted (percents (fst (nativeBrowserAudioExtraction f True d supported nenv)))
       \<and> sorted (percents (fst (ffmpegAudioExtraction f True fenv)))
       \<and> (sorted (percents es) \<longleftrightarrow>
            (snd (nativeBrowserAudioExtraction f True d supported nenv) = Resolved b
             \<or> (\<forall>p\<in>set (percents (fst (nativeBrowserAudioExtraction f True d supported nenv))).
                   p \<le> 20)))"
proof -
  obtain ns r where n: "nativeBrowserAudioExtraction f True d supported nenv = (ns, r)"
    by (cases "nativeBrowserAudioExtraction f True d supported nenv")
  have sn: "sorted (percents ns)" using native_sorted [OF fwd, of f supported] n by simp
  have bn: "\<forall>p\<in>set (percents ns). 10 \<le> p \<and> p \<le> 100"
    using native_ge_10 [OF fwd, of f supported] n by simp
  have sf: "sorted (percents (fst (ffmpegAudioExtraction f True fenv)))" by (rule ffmpeg_sorted)
  show ?thesis
  proof (cases r)
    case Pending
    then show ?thesis using run n by (simp add: extractAudioOnly_def)
  next
    case (Resolved b')
    then have e: "es = Progress 5 # ns" "b' = b" using run n by (simp_all add: extractAudioOnly_def)
    have "percents ns \<noteq> [] \<and> last (percents ns) = 100"
      using n Resolved
      by (cases "(f, True, d, supported, nenv)" rule: nativeBrowserAudioExtraction.cases) auto
    then show ?thesis using sn sf bn n Resolved e by auto
  next
    case (Rejected err)
    obtain fs where g: "ffmpegAudioExtraction f True fenv = (fs, Resolved b)"
      and e: "es = Progress 5 # ns @ fs"
      using run n Rejected by (cases "ffmpegAudioExtraction f True fenv") (simp add: extractAudioOnly_def)
    have pf: "percents fs = [20, 40, 80, 100]" using ffmpeg_resolved [OF g] .
    have "sorted (percents es) \<longleftrightarrow> (\<forall>p\<in>set (percents ns). p \<le> 20)"
      using sn bn by (auto simp add: e pf sorted_append)
    then show ?thesis using sn sf n Rejected by (simp add: e pf)
  qed
qed

theorem extractAudioOnly_progress_witness:
  "playbackForward 60 (Plays [15, 30, 60] (VideoEnded [100, 0, 200]))
   \<and> snd (extractAudioOnly sampleVideo True 60 webmOnly
            (Plays [15, 30, 60] (VideoEnded [100, 0, 200])) LoadFails)
       = Resolved \<lparr>size = 300, mimeType = ''audio/webm''\<rparr>
   \<and> last (percents (fst (extractAudioOnly sampleVideo True 60 webmOnly
            (Plays [15, 30, 60] (VideoEnded [100, 0, 200])) LoadFails))) = 100
   \<and> sorted (percents (fst (extractAudioOnly sampleVideo True 60 webmOnly
            (Plays [15, 30, 60] (VideoEnded [100, 0, 200])) LoadFails)))"
proof -
  let ?run = "extractAudioOnly sampleVideo True 60 webmOnly
                (Plays [15, 30, 60] (VideoEnded [100, 0, 200])) LoadFails"
  have b: "snd ?run = Resolved \<lparr>size = 300, mimeType = ''audio/webm''\<rparr>"
    by (simp add: extractAudioOnly_def selectMimeType_def mimeTypes_def webmOnly_def)
  have r: "?run = (fst ?run, Resolved \<lparr>size = 300, mimeType = ''audio/webm''\<rparr>)"
    using b by (metis prod.collapse)
  have f: "playbackForward 60 (Plays [15, 30, 60] (VideoEnded [100, 0, 200]))"
    by simp
  have n: "snd (nativeBrowserAudioExtraction sampleVideo True 60 webmOnly
             (Plays [15, 30, 60] (VideoEnded [100, 0, 200])))
           = Resolved \<lparr>size = 300, mimeType = ''audio/webm''\<rparr>"
    by (simp add: selectMimeType_def mimeTypes_def webmOnly_def)
  show ?thesis using extractAudioOnly_progress [OF r f] b f n by blast
qed

text \<open>
  C2, as the claim states it, fails. The \<open>MediaRecorder\<close> constructor throws after the
  native path has reported 30, FFmpeg completes the extraction, and the callback receives
  5, 10, 20, 30, 20, 40, 80, 100: the report after 30 is 20.
\<close>

theorem extractAudioOnly_progress_decreases:
  "snd (extractAudioOnly sampleVideo True 60 webmOnly
          (RecorderThrows ''NotSupportedError'') (FfmpegCompletes 500))
     = Resolved \<lparr>size = 500, mimeType = ''audio/mp3''\<rparr>
   \<and> percents (fst (extractAudioOnly sampleVideo True 60 webmOnly
          (RecorderThrows ''NotSupportedError'') (FfmpegCompletes 500)))
     = [5, 10, 20, 30, 20, 40, 80, 100]
   \<and> \<not> sorted (percents (fst (extractAudioOnly sampleVideo True 60 webmOnly
          (RecorderThrows ''NotSupportedError'') (FfmpegCompletes 500))))"
  by (simp add: extractAudioOnly_def)

section \<open>Transcription: direct or chunked\<close>

lemma entered_notify [simp]: "entered (notify cb p) = []"
  by (cases cb) simp_all

lemma slices_notify [simp]: "slices (notify cb p) = []"
  by (cases cb) simp_all

lemma pushes_notify [simp]: "pushes (notify cb p) = []"
  by (cases cb) simp_all

lemma entered_append [simp]: "entered (xs @ ys) = entered xs @ entered ys"
  by (induction xs rule: entered.induct) simp_all

lemma slices_append [simp]: "slices (xs @ ys) = slices xs @ slices ys"
  by (induction xs rule: slices.induct) simp_all

lemma pushes_append [simp]: "pushes (xs @ ys) = pushes xs @ pushes ys"
  by (induction xs rule: pushes.induct) simp_all

lemma entered_ticks [simp]: "entered (concat (map (\<lambda>e. notify cb (g e)) es)) = []"
  by (induction es) simp_all

lemma slices_ticks [simp]: "slices (concat (map (\<lambda>e. notify cb (g e)) es)) = []"
  by (induction es) simp_all

lemma chunkLoop_events:
  "entered (fst (chunkLoop a opts c n rnd i chunks k)) = []
   \<and> slices (fst (chunkLoop a opts c n rnd i chunks k))
       = map (\<lambda>j. (j * c, min (j * c + c) (size a))) [i..<n]"
proof (induction "n - i" arbitrary: i chunks k)
  case 0
  then show ?case by (simp add: chunkLoop.simps)
next
  case (Suc m)
  then have lt: "i < n" and m: "m = n - (i + 1)" by simp_all
  show ?case
    using Suc.hyps(1) [OF m] lt
    by (subst (1 2) chunkLoop.simps) (simp add: Let_def split_beta upt_conv_Cons)
qed

lemma transcribeAudio_events:
  "entered (fst (transcribeAudio b opts rnd el))
     = (if real (size b) > 25 * MB \<and> progressCallback opts then [Chunked] else [Direct])
   \<and> slices (fst (transcribeAudio b opts rnd el))
     = (if real (size b) > 25 * MB \<and> progressCallback opts then byteRanges (size b) else [])"
  using chunkLoop_events [of b opts "20 * 1024 * 1024" _ rnd 0 "[]" 0]
  by (simp add: transcribeAudio_def transcribeAudioInChunks_def transcribeAudioDirect_def
        MB_def Let_def split_beta byteRanges_def chunkBytes_def)

lemma byteRanges_partition:
  assumes "0 < n"
  shows "byteRanges n \<noteq> [] \<and> fst (hd (byteRanges n)) = 0 \<and> snd (last (byteRanges n)) = n
       \<and> (\<forall>i. i + 1 < length (byteRanges n) \<longrightarrow>
             snd (byteRanges n ! i) = fst (byteRanges n ! i) + chunkBytes
           \<and> snd (byteRanges n ! i) = fst (byteRanges n ! (i + 1)))
       \<and> fst (last (byteRanges n)) < snd (last (byteRanges n))
       \<and> snd (last (byteRanges n)) \<le> fst (last (byteRanges n)) + chunkBytes"
proof -
  define N where "N = nat \<lceil>real n / real chunkBytes\<rceil>"
  have C: "0 < chunkBytes" by (simp add: chunkBytes_def)
  define c where "c = \<lceil>real n / real chunkBytes\<rceil>"
  have "0 < real n / real chunkBytes" using assms C by simp
  then have c0: "0 < c" by (simp add: c_def)
  then have N0: "0 < N" by (simp add: N_def c_def)
  have Nc: "real N = real_of_int c" using c0 by (simp add: N_def c_def)
  have "real n / real chunkBytes \<le> real_of_int c" unfolding c_def by (rule le_of_int_ceiling)
  then have "real n \<le> real N * real chunkBytes" using C by (simp add: field_simps Nc)
  then have N1: "n \<le> N * chunkBytes" by (metis of_nat_le_iff of_nat_mult)
  have "real_of_int c < real n / real chunkBytes + 1" unfolding c_def by linarith
  then have "real N - 1 < real n / real chunkBytes" by (simp add: Nc)
  then have "(real N - 1) * real chunkBytes < real n" using C by (simp add: field_simps)
  then have "real ((N - 1) * chunkBytes) < real n" using N0 by (simp add: of_nat_diff)
  then have N2: "(N - 1) * chunkBytes < n" by (simp only: of_nat_less_iff)
  have br: "byteRanges n = map (\<lambda>i. (i * chunkBytes, min (i * chunkBytes + chunkBytes) n)) [0..<N]"
    by (simp add: byteRanges_def N_def)
  have len: "length (byteRanges n) = N" by (simp add: br)
  have ne: "byteRanges n \<noteq> []" using N0 len by auto
  have nth: "\<And>i. i < N \<Longrightarrow>
      byteRanges n ! i = (i * chunkBytes, min (i * chunkBytes + chunkBytes) n)"
    by (simp add: br)
  have hd0: "fst (hd (byteRanges n)) = 0" using nth [of 0] N0 ne by (simp add: hd_conv_nth)
  have NC: "(N - 1) * chunkBytes + chunkBytes = N * chunkBytes"
    using N0 by (cases N) simp_all
  then have lastv: "last (byteRanges n) = ((N - 1) * chunkBytes, n)"
    using nth [of "N - 1"] N0 N1 ne len by (simp add: last_conv_nth)
  have mid: "\<forall>i. i + 1 < length (byteRanges n) \<longrightarrow>
             snd (byteRanges n ! i) = fst (byteRanges n ! i) + chunkBytes
           \<and> snd (byteRanges n ! i) = fst (byteRanges n ! (i + 1))"
  proof (intro allI impI)
    fix i assume "i + 1 < length (byteRanges n)"
    then have i: "i + 1 < N" by (simp add: len)
    then have "i + 1 \<le> N - 1" by simp
    then have "(i + 1) * chunkBytes \<le> (N - 1) * chunkBytes" by (rule mult_le_mono1)
    then have "i * chunkBytes + chunkBytes \<le> n" using N2 by simp
    then show "snd (byteRanges n ! i) = fst (byteRanges n ! i) + chunkBytes
           \<and> snd (byteRanges n ! i) = fst (byteRanges n ! (i + 1))"
      using nth [of i] nth [of "i + 1"] i by simp
  qed
  have l1: "snd (last (byteRanges n)) = n" by (simp add: lastv)
  have l2: "fst (last (byteRanges n)) < snd (last (byteRanges n))" using N2 by (simp add: lastv)
  have l3: "snd (last (byteRanges n)) \<le> fst (last (byteRanges n)) + chunkBytes"
    using N1 NC by (simp add: lastv)
  show ?thesis using ne hd0 mid l1 l2 l3 by blast
qed

text \<open>
  The routine \<open>transcribeAudio\<close> enters, for every input: the chunked routine when the
  blob is larger than 25 MB and a progress callback was passed, and the direct routine
  otherwise. In the chunked routine the slices taken from the blob are the ranges
  \<open>byteRanges\<close>: they start at 0, each ends where the next begins, every range but the
  last is 20 MB long, the last one is not empty and at most 20 MB long and ends at the
  size of the blob. The direct routine takes no slice.
\<close>

lemma transcribeAudio_chunked_iff:
  "entered (fst (transcribeAudio b opts rnd el))
     = (if real (size b) > 25 * MB \<and> progressCallback opts then [Chunked] else [Direct])
   \<and> (real (size b) > 25 * MB \<and> progressCallback opts \<longrightarrow>
         slices (fst (transcribeAudio b opts rnd el)) = byteRanges (size b)
       \<and> byteRanges (size b) \<noteq> []
       \<and> fst (hd (byteRanges (size b))) = 0
       \<and> snd (last (byteRanges (size b))) = size b
       \<and> (\<forall>i. i + 1 < length (byteRanges (size b)) \<longrightarrow>
              snd (byteRanges (size b) ! i) = fst (byteRanges (size b) ! i) + chunkBytes
            \<and> snd (byteRanges (size b) ! i) = fst (byteRanges (size b) ! (i + 1)))
       \<and> fst (last (byteRanges (size b))) < snd (last (byteRanges (size b)))
       \<and> snd (last (byteRanges (size b))) \<le> fst (last (byteRanges (size b))) + chunkBytes)
   \<and> (\<not> (real (size b) > 25 * MB \<and> progressCallback opts) \<longrightarrow>
         slices (fst (transcribeAudio b opts rnd el)) = [])"
proof -
  note ev = transcribeAudio_events [of b opts rnd el]
  have c1: "entered (fst (transcribeAudio b opts rnd el))
     = (if real (size b) > 25 * MB \<and> progressCallback opts then [Chunked] else [Direct])"
    using ev by (rule conjunct1)
  have c3: "\<not> (real (size b) > 25 * MB \<and> progressCallback opts) \<longrightarrow>
         slices (fst (transcribeAudio b opts rnd el)) = []"
    using ev by simp
  have c2: "real (size b) > 25 * MB \<and> progressCallback opts \<longrightarrow>
         slices (fst (transcribeAudio b opts rnd el)) = byteRanges (size b)
       \<and> byteRanges (size b) \<noteq> []
       \<and> fst (hd (byteRanges (size b))) = 0
       \<and> snd (last (byteRanges (size b))) = size b
       \<and> (\<forall>i. i + 1 < length (byteRanges (size b)) \<longrightarrow>
              snd (byteRanges (size b) ! i) = fst (byteRanges (size b) ! i) + chunkBytes
            \<and> snd (byteRanges (size b) ! i) = fst (byteRanges (size b) ! (i + 1)))
       \<and> fst (last (byteRanges (size b))) < snd (last (byteRanges (size b)))
       \<and> snd (last (byteRanges (size b))) \<le> fst (last (byteRanges (size b))) + chunkBytes"
  proof
    assume c: "real (size b) > 25 * MB \<and> progressCallback opts"
    then have "0 < size b" by (cases "size b") (simp_all add: MB_def)
    note p = byteRanges_partition [OF this]
    have "slices (fst (transcribeAudio b opts rnd el)) = byteRanges (size b)"
      using ev c by simp
    then show "slices (fst (transcribeAudio b opts rnd el)) = byteRanges (size b)
       \<and> byteRanges (size b) \<noteq> []
       \<and> fst (hd (byteRanges (size b))) = 0
       \<and> snd (last (byteRanges (size b))) = size b
       \<and> (\<forall>i. i + 1 < length (byteRanges (size b)) \<longrightarrow>
              snd (byteRanges (size b) ! i) = fst (byteRanges (size b) ! i) + chunkBytes
            \<and> snd (byteRanges (size b) ! i) = fst (byteRanges (size b) ! (i + 1)))
       \<and> fst (last (byteRanges (size b))) < snd (last (byteRanges (size b)))
       \<and> snd (last (byteRanges (size b))) \<le> fst (last (byteRanges (size b))) + chunkBytes"
      using p by (rule conjI)
  qed
  show ?thesis using c1 c2 c3 by (intro conjI)
qed

lemma transcribeAudio_chunked_iff_example:
  "real (size (audioOfMB 50)) > 25 * MB \<and> progressCallback (optionsWith 120 True)
   \<and> entered (fst (transcribeAudio (audioOfMB 50) (optionsWith 120 True) (constRandom 0) []))
       = [Chunked]
   \<and> slices (fst (transcribeAudio (audioOfMB 50) (optionsWith 120 True) (constRandom 0) []))
       = [(0, 20971520), (20971520, 41943040), (41943040, 52428800)]
   \<and> \<not> (real (size (audioOfMB 20)) > 25 * MB \<and> progressCallback (optionsWith 120 True))
   \<and> entered (fst (transcribeAudio (audioOfMB 20) (optionsWith 120 True) (constRandom 0) []))
       = [Direct]"
proof -
  have h: "real (size (audioOfMB 50)) > 25 * MB" "progressCallback (optionsWith 120 True)"
    "\<not> (real (size (audioOfMB 20)) > 25 * MB \<and> progressCallback (optionsWith 120 True))"
    by (simp_all add: audioOfMB_def optionsWith_def MB_def)
  have r: "byteRanges (size (audioOfMB 50))
             = [(0, 20971520), (20971520, 41943040), (41943040, 52428800)]"
    by (simp add: byteRanges_def chunkBytes_def audioOfMB_def numeral_3_eq_3)
  have a: "entered (fst (transcribeAudio (audioOfMB 50) (optionsWith 120 True) (constRandom 0) []))
             = [Chunked]
         \<and> slices (fst (transcribeAudio (audioOfMB 50) (optionsWith 120 True) (constRandom 0) []))
             = byteRanges (size (audioOfMB 50))"
    using transcribeAudio_chunked_iff
            [of "audioOfMB 50" "optionsWith 120 True" "constRandom 0" "[]"] h(1,2)
    by simp
  have b: "entered (fst (transcribeAudio (audioOfMB 20) (optionsWith 120 True) (constRandom 0) []))
             = [Direct]"
    using transcribeAudio_chunked_iff
            [of "audioOfMB 20" "optionsWith 120 True" "constRandom 0" "[]"] h(3)
    by simp
  show ?thesis using h a b r by simp
qed

text \<open>
  C3, at a failing input. A blob of 30 MB is larger than 25 MB, which the code's comments
  call large and send to chunking; but when no progress callback is passed,
  \<open>transcribeAudio\<close> enters the direct routine. With a callback the same blob is
  chunked.
\<close>

theorem transcribeAudio_large_direct:
  "real (size (audioOfMB 30)) > 25 * MB
   \<and> entered (fst (transcribeAudio (audioOfMB 30) (optionsWith 60 False)
                   (constRandom (1 / 2)) [])) = [Direct]
   \<and> entered (fst (transcribeAudio (audioOfMB 30) (optionsWith 60 True)
                   (constRandom (1 / 2)) [])) = [Chunked]"
  using transcribeAudio_events [of "audioOfMB 30" "optionsWith 60 False" "constRandom (1 / 2)" "[]"]
        transcribeAudio_events [of "audioOfMB 30" "optionsWith 60 True" "constRandom (1 / 2)" "[]"]
  by (simp add: audioOfMB_def optionsWith_def MB_def)

section \<open>Chunked runs: time stamps and ids\<close>

lemma length_phrases: "length phrases = 25"
  by (simp add: phrases_def)


text \<open>
  C4, at three failing inputs. With a 30 MB blob and a duration hint of 60 s the run has two
  chunks of 30 s. The first chunk holds the ids 1 to 4; the second chunk starts its ids at
  \<open>floor(30 / 8) + 1 = 4\<close>, so the id 4 occurs twice and the ids are not
  \<open>1, ..., 8\<close>. With a duration hint of 96 s and every \<open>Math.random()\<close> returning
  0.95, the first chunk of 48 s is filled by five segments, and the second chunk starts its
  ids at \<open>floor(48 / 8) + 1 = 7\<close>: the id 6 is skipped (the time stamps of this run
  are not exactly representable; the code, computing in doubles, returns the same ids).
  With a duration hint of 144 s and every \<open>Math.random()\<close> returning 0.75 all values
  are integers: the first chunk of 72 s is filled by eight segments of 9 seconds, and the
  second chunk starts its ids at \<open>floor(72 / 8) + 1 = 10\<close>, so the id 9 is skipped.
\<close>

theorem transcribeAudio_ids_30MB:
  "map seg_id (snd (transcribeAudio (audioOfMB 30) (optionsWith 60 True)
                      (constRandom (1 / 2)) []))
     = [1, 2, 3, 4, 4, 5, 6, 7]
   \<and> map seg_id (snd (transcribeAudio (audioOfMB 30) (optionsWith 96 True)
                        (constRandom (19 / 20)) []))
     = [1, 2, 3, 4, 5, 7, 8, 9, 10, 11]
   \<and> map seg_id (snd (transcribeAudio (audioOfMB 30) (optionsWith 144 True)
                        (constRandom (3 / 4)) []))
     = [1, 2, 3, 4, 5, 6, 7, 8, 10, 11, 12, 13, 14, 15, 16, 17]"
  by (simp add: transcribeAudio_def transcribeAudioInChunks_def audioOfMB_def optionsWith_def
        constRandom_def generateOptimizedTranscription_def genLoop.simps chunkLoop.simps
        Let_def length_phrases)

section \<open>Formatting for export\<close>

lemma lower_json: "toLowerCase ''JSON'' = ''json''"
  by (simp add: toLowerCase_def lowerChar_def)

text \<open>
  C10. Whatever the format string, \<open>formatTranscriptionForExport\<close> returns the empty
  string for missing data and for an empty segment list; and for a format that is none of
  \<open>txt\<close>, \<open>srt\<close>, \<open>vtt\<close> after lower-casing it returns the segment texts joined by
  blank lines.
\<close>

theorem formatTranscriptionForExport_default:
  "formatTranscriptionForExport None fmt = []
   \<and> formatTranscriptionForExport (Some []) fmt = []
   \<and> (toLowerCase fmt \<noteq> ''txt'' \<and> toLowerCase fmt \<noteq> ''srt'' \<and> toLowerCase fmt \<noteq> ''vtt'' \<longrightarrow>
        formatTranscriptionForExport (Some segs) fmt
          = join (newline @ newline) (map seg_text segs))"
  by (cases segs) (simp_all add: formatTranscriptionForExport_def)

theorem formatTranscriptionForExport_default_witness:
  "toLowerCase ''JSON'' \<noteq> ''txt'' \<and> toLowerCase ''JSON'' \<noteq> ''srt''
   \<and> toLowerCase ''JSON'' \<noteq> ''vtt''
   \<and> formatTranscriptionForExport (Some sampleSegments) ''JSON''
       = ''Welcome.'' @ newline @ newline @ ''Today.''"
proof -
  have h: "toLowerCase ''JSON'' \<noteq> ''txt'' \<and> toLowerCase ''JSON'' \<noteq> ''srt''
           \<and> toLowerCase ''JSON'' \<noteq> ''vtt''"
    by (simp add: lower_json)
  show ?thesis
    using h formatTranscriptionForExport_default [of "''JSON''" sampleSegments]
    by (simp add: sampleSegments_def)
qed

section \<open>Editing a segment\<close>

text \<open>
  C8. Typing \<open>t\<close> into the edit field and saving the edit of id \<open>i\<close> keeps the length
  and order of the segment list. A segment with id \<open>i\<close> becomes the same segment with
  its text replaced by \<open>t\<close>: reading the text back gives \<open>t\<close>, and its id, start time
  and end time are as before. A segment with another id is unchanged. When no segment has
  id \<open>i\<close> the list as a whole is unchanged. When the ids of the list are distinct, at
  most one position of the list changes.
\<close>

theorem handleSaveEdit_edit:
  "length (editedData (handleSaveEdit i (setEditText t st))) = length (editedData st)
   \<and> (\<forall>n<length (editedData st).
         (seg_id (editedData st ! n) = i \<longrightarrow>
            editedData (handleSaveEdit i (setEditText t st)) ! n
              = (editedData st ! n)\<lparr>seg_text := t\<rparr>
          \<and> seg_text (editedData (handleSaveEdit i (setEditText t st)) ! n) = t
          \<and> seg_id (editedData (handleSaveEdit i (setEditText t st)) ! n) = i
          \<and> startTime (editedData (handleSaveEdit i (setEditText t st)) ! n)
              = startTime (editedData st ! n)
          \<and> endTime (editedData (handleSaveEdit i (setEditText t st)) ! n)
              = endTime (editedData st ! n))
       \<and> (seg_id (editedData st ! n) \<noteq> i \<longrightarrow>
            editedData (handleSaveEdit i (setEditText t st)) ! n = editedData st ! n))
   \<and> (i \<notin> seg_id ` set (editedData st) \<longrightarrow>
         editedData (handleSaveEdit i (setEditText t st)) = editedData st)
   \<and> (distinct (map seg_id (editedData st)) \<longrightarrow>
         (\<forall>n<length (editedData st). \<forall>m<length (editedData st).
            editedData (handleSaveEdit i (setEditText t st)) ! n \<noteq> editedData st ! n
            \<and> editedData (handleSaveEdit i (setEditText t st)) ! m \<noteq> editedData st ! m
            \<longrightarrow> n = m))"
proof -
  let ?f = "\<lambda>item. if seg_id item = i then item\<lparr>seg_text := t\<rparr> else item"
  have e: "editedData (handleSaveEdit i (setEditText t st)) = map ?f (editedData st)"
    by (simp add: handleSaveEdit_def setEditText_def)
  have a: "i \<notin> seg_id ` set (editedData st) \<longrightarrow> map ?f (editedData st) = editedData st"
  proof
    assume "i \<notin> seg_id ` set (editedData st)"
    then have "\<And>x. x \<in> set (editedData st) \<Longrightarrow> ?f x = x" by auto
    then show "map ?f (editedData st) = editedData st" by (rule map_idI)
  qed
  have d: "distinct (map seg_id (editedData st)) \<longrightarrow>
         (\<forall>n<length (editedData st). \<forall>m<length (editedData st).
            map ?f (editedData st) ! n \<noteq> editedData st ! n
            \<and> map ?f (editedData st) ! m \<noteq> editedData st ! m
            \<longrightarrow> n = m)"
  proof (intro impI allI)
    fix n m
    assume dis: "distinct (map seg_id (editedData st))"
      and n: "n < length (editedData st)" and m: "m < length (editedData st)"
      and ch: "map ?f (editedData st) ! n \<noteq> editedData st ! n
            \<and> map ?f (editedData st) ! m \<noteq> editedData st ! m"
    have "seg_id (editedData st ! n) = i" "seg_id (editedData st ! m) = i"
      using ch n m by (auto split: if_splits)
    then have "map seg_id (editedData st) ! n = map seg_id (editedData st) ! m"
      using n m by simp
    moreover have "n < length (map seg_id (editedData st))" "m < length (map seg_id (editedData st))"
      using n m by simp_all
    ultimately show "n = m" using dis nth_eq_iff_index_eq by blast
  qed
  show ?thesis unfolding e using a d by simp
qed

theorem handleSaveEdit_edit_witness:
  "editedData (handleSaveEdit 2 (setEditText ''Tomorrow.'' samplePanel))
     = [\<lparr>seg_id = 1, startTime = 0, endTime = 8, seg_text = ''Welcome.'', confidence = 9 / 10\<rparr>,
        \<lparr>seg_id = 2, startTime = 8, endTime = 15, seg_text = ''Tomorrow.'',
         confidence = 9 / 10\<rparr>]
   \<and> 7 \<notin> seg_id ` set (editedData samplePanel)
   \<and> distinct (map seg_id (editedData samplePanel))
   \<and> editedData (handleSaveEdit 7 (setEditText ''Tomorrow.'' samplePanel))
       = editedData samplePanel"
proof -
  have h: "7 \<notin> seg_id ` set (editedData samplePanel)"
    "distinct (map seg_id (editedData samplePanel))"
    by (simp_all add: samplePanel_def sampleSegments_def)
  have l: "length (editedData samplePanel) = 2"
    "seg_id (editedData samplePanel ! 0) \<noteq> 2" "seg_id (editedData samplePanel ! 1) = 2"
    by (simp_all add: samplePanel_def sampleSegments_def)
  note t = handleSaveEdit_edit [of 2 "''Tomorrow.''" samplePanel]
  have len: "length (editedData (handleSaveEdit 2 (setEditText ''Tomorrow.'' samplePanel))) = 2"
    using t l by simp
  have n0: "editedData (handleSaveEdit 2 (setEditText ''Tomorrow.'' samplePanel)) ! 0
              = editedData samplePanel ! 0"
    using t l by simp
  have n1: "editedData (handleSaveEdit 2 (setEditText ''Tomorrow.'' samplePanel)) ! 1
              = (editedData samplePanel ! 1)\<lparr>seg_text := ''Tomorrow.''\<rparr>"
    using t l by simp
  have a: "editedData (handleSaveEdit 2 (setEditText ''Tomorrow.'' samplePanel))
     = [editedData samplePanel ! 0, (editedData samplePanel ! 1)\<lparr>seg_text := ''Tomorrow.''\<rparr>]"
    using len n0 n1 by (simp add: list_eq_iff_nth_eq less_Suc_eq numeral_2_eq_2)
  have b: "editedData (handleSaveEdit 7 (setEditText ''Tomorrow.'' samplePanel))
             = editedData samplePanel"
    using handleSaveEdit_edit [of 7 "''Tomorrow.''" samplePanel] h(1) by blast
  show ?thesis using a b h by (simp add: samplePanel_def sampleSegments_def)
qed

section \<open>Exporting several items\<close>

lemma exportLoop_map:
  "exportLoop d base env items results = results @ map (entryFor d base env) items"
  by (induction items arbitrary: results)
     (auto simp add: entryFor_def split: sum.splits)



text \<open>
  C9. The results of \<open>handleExportAll\<close> hold one entry for each enabled export, in
  order, and the entry at a position is the outcome of \<open>exportTranscription\<close> for the
  item at that position alone: a success entry with the file name, or a failure entry with
  the error message. A failing item therefore neither ends the run nor changes the
  entries of the other items.
\<close>

theorem handleExportAll_per_item:
  "length (handleExportAll name sel d env)
     = length (filter (\<lambda>(key, config). enabled config) sel)
   \<and> (\<forall>n<length (filter (\<lambda>(key, config). enabled config) sel).
         handleExportAll name sel d env ! n
           = entryFor d (case name of None \<Rightarrow> ''transcription''
                         | Some v \<Rightarrow> if v = [] then ''transcription''
                                     else takeWhile (\<lambda>c. c \<noteq> CHR ''.'') v) env
               (filter (\<lambda>(key, config). enabled config) sel ! n))
   \<and> (\<forall>e\<in>set (handleExportAll name sel d env).
         (entry_success e \<longrightarrow> entry_filename e \<noteq> None \<and> entry_error e = None)
       \<and> (\<not> entry_success e \<longrightarrow> entry_filename e = None \<and> entry_error e \<noteq> None))"
  by (auto simp add: handleExportAll_def exportLoop_map entryFor_def Let_def split: sum.splits)

theorem handleExportAll_per_item_witness:
  "handleExportAll (Some ''talk.mp4'') sampleExports (Some sampleSegments) docxFails
     = [\<lparr>entry_type = ''full'', entry_format = ''txt'',
         entry_filename = Some ''talk_full_transcript.txt'', entry_success = True,
         entry_error = None\<rparr>,
        \<lparr>entry_type = ''summary'', entry_format = ''docx'', entry_filename = None,
         entry_success = False,
         entry_error = Some ''Failed to create DOCX file. Please try a different format.''\<rparr>,
        \<lparr>entry_type = ''keypoints'', entry_format = ''html'',
         entry_filename = Some ''talk_key_points.html'', entry_success = True,
         entry_error = None\<rparr>]"
proof -
  let ?r = "handleExportAll (Some ''talk.mp4'') sampleExports (Some sampleSegments) docxFails"
  have f: "filter (\<lambda>(key, config). enabled config) sampleExports = sampleExports"
    by (simp add: sampleExports_def)
  note t = handleExportAll_per_item [of "Some ''talk.mp4''" sampleExports "Some sampleSegments" docxFails]
  have len: "length ?r = 3" using t by (simp add: f) (simp add: sampleExports_def)
  have nth: "\<And>n. n < 3 \<Longrightarrow> ?r ! n = entryFor (Some sampleSegments) ''talk'' docxFails (sampleExports ! n)"
    using t by (simp add: f) (simp add: sampleExports_def)
  have e: "?r = [?r ! 0, ?r ! 1, ?r ! 2]"
    using len by (simp add: list_eq_iff_nth_eq less_Suc_eq numeral_3_eq_3 numeral_2_eq_2)
  have e0: "?r ! 0 = \<lparr>entry_type = ''full'', entry_format = ''txt'',
         entry_filename = Some ''talk_full_transcript.txt'', entry_success = True,
         entry_error = None\<rparr>"
    using nth [of 0]
    by (simp add: sampleExports_def sampleSegments_def docxFails_def entryFor_def
          exportTranscription_def toLowerCase_def lowerChar_def)
  have e1: "?r ! 1 = \<lparr>entry_type = ''summary'', entry_format = ''docx'', entry_filename = None,
         entry_success = False,
         entry_error = Some ''Failed to create DOCX file. Please try a different format.''\<rparr>"
    using nth [of 1]
    by (simp add: sampleExports_def sampleSegments_def docxFails_def entryFor_def
          exportTranscription_def toLowerCase_def lowerChar_def)
  have e2: "?r ! 2 = \<lparr>entry_type = ''keypoints'', entry_format = ''html'',
         entry_filename = Some ''talk_key_points.html'', entry_success = True,
         entry_error = None\<rparr>"
    using nth [of 2]
    by (simp add: sampleExports_def sampleSegments_def docxFails_def entryFor_def
          exportTranscription_def toLowerCase_def lowerChar_def)
  show ?thesis by (subst e) (simp only: e0 e1 e2)
qed

end
